theory Spec2Isabelle
  imports Main "HOL-Library.Monad_Syntax" "HOL-Library.Sublist"
begin

section \<open>Go values: runes, strings, run-time panics\<close>

text \<open>
  A Go \<open>string\<close> is a sequence of bytes; an Isabelle \<^typ>\<open>char\<close> is one byte, so a Go
  string is a \<^typ>\<open>string\<close>. A \<open>rune\<close> is a code point; it is modelled by the natural
  number \<open>uint32(r)\<close>, which is what the UTF-8 encoder of the Go run time inspects.
  The editor keeps its lines as \<open>[]rune\<close> and converts to and from \<open>string\<close> whenever it
  searches, replaces, yanks or pastes; the conversions are UTF-8 encoding and decoding.

  Go's \<open>int\<close> is modelled by \<^typ>\<open>int\<close>: the editor only adds and subtracts small
  constants, no claim depends on 64-bit overflow.

  A run-time panic (index out of range, slice bounds out of range) is the value \<open>None\<close>.
\<close>

type_synonym rune = nat

definition RuneError :: rune where
  "RuneError = 65533"

definition byte :: "nat \<Rightarrow> char" where
  "byte n = char_of n"

text \<open>\<open>utf8.AppendRune\<close>: the bytes that \<open>string(r)\<close> and \<open>WriteRune\<close> produce.\<close>

definition encode_rune :: "rune \<Rightarrow> string" where
  "encode_rune r =
     (if r \<le> 127 then [byte r]
      else if r \<le> 2047 then [byte (192 + r div 64), byte (128 + r mod 64)]
      else if r > 1114111 \<or> (55296 \<le> r \<and> r \<le> 57343) then [byte 239, byte 191, byte 189]
      else if r \<le> 65535 then
        [byte (224 + r div 4096), byte (128 + (r div 64) mod 64), byte (128 + r mod 64)]
      else
        [byte (240 + r div 262144), byte (128 + (r div 4096) mod 64),
         byte (128 + (r div 64) mod 64), byte (128 + r mod 64)])"

text \<open>\<open>string(runes)\<close> for a \<open>[]rune\<close>.\<close>

definition string_of_runes :: "rune list \<Rightarrow> string" where
  "string_of_runes rs = concat (map encode_rune rs)"

text \<open>
  \<open>utf8.DecodeRuneInString\<close> on a non-empty string: the rune and its width in bytes.
  A byte that does not start a well-formed sequence decodes to \<open>RuneError\<close> with width 1.
  The second byte of a sequence is checked against the accept range of the first byte
  (which rules out overlong forms, surrogates and values above \<open>U+10FFFF\<close>), the later
  ones against \<open>0x80..0xBF\<close>.
\<close>

definition cont_byte :: "nat \<Rightarrow> bool" where
  "cont_byte b \<longleftrightarrow> 128 \<le> b \<and> b \<le> 191"

definition accept_lo :: "nat \<Rightarrow> nat" where
  "accept_lo b0 = (if b0 = 224 then 160 else if b0 = 240 then 144 else 128)"

definition accept_hi :: "nat \<Rightarrow> nat" where
  "accept_hi b0 = (if b0 = 237 then 159 else if b0 = 244 then 143 else 191)"

definition seq_size :: "nat \<Rightarrow> nat" where
  "seq_size b0 = (if b0 < 128 then 1 else if b0 < 194 then 0 else if b0 < 224 then 2
                  else if b0 < 240 then 3 else if b0 < 245 then 4 else 0)"

definition decode_rune :: "string \<Rightarrow> rune \<times> nat" where
  "decode_rune s =
     (case map of_char s of
        [] \<Rightarrow> (RuneError, 0)
      | b0 # bs \<Rightarrow>
          let sz = seq_size b0 in
          if sz = 0 then (RuneError, 1)
          else if sz = 1 then (b0, 1)
          else if length bs < sz - 1 then (RuneError, 1)
          else if bs ! 0 < accept_lo b0 \<or> accept_hi b0 < bs ! 0 then (RuneError, 1)
          else if sz = 2 then ((b0 mod 32) * 64 + bs ! 0 mod 64, 2)
          else if \<not> cont_byte (bs ! 1) then (RuneError, 1)
          else if sz = 3 then ((b0 mod 16) * 4096 + (bs ! 0 mod 64) * 64 + bs ! 1 mod 64, 3)
          else if \<not> cont_byte (bs ! 2) then (RuneError, 1)
          else ((b0 mod 8) * 262144 + (bs ! 0 mod 64) * 4096 + (bs ! 1 mod 64) * 64
                + bs ! 2 mod 64, 4))"

text \<open>\<open>[]rune(s)\<close>, and the runes a \<open>for range s\<close> loop visits: decode, skip the width.\<close>

fun runes_of_string :: "string \<Rightarrow> rune list" where
  "runes_of_string [] = []"
| "runes_of_string (c # cs) =
     (case decode_rune (c # cs) of (r, w) \<Rightarrow> r # runes_of_string (drop (w - 1) cs))"

subsection \<open>The functions of package \<open>strings\<close> the editor calls\<close>

text \<open>
  \<open>strings.Index(s, sub)\<close>: the byte offset of the first occurrence of \<open>sub\<close> in \<open>s\<close>;
  \<open>None\<close> stands for the result \<open>-1\<close>.
\<close>

fun str_index :: "string \<Rightarrow> string \<Rightarrow> nat option" where
  "str_index [] sub = (if sub = [] then Some 0 else None)"
| "str_index (c # cs) sub =
     (if prefix sub (c # cs) then Some 0 else map_option Suc (str_index cs sub))"

text \<open>\<open>strings.LastIndex(s, sub)\<close>: the byte offset of the last occurrence.\<close>

fun str_last_index :: "string \<Rightarrow> string \<Rightarrow> nat option" where
  "str_last_index [] sub = (if sub = [] then Some 0 else None)"
| "str_last_index (c # cs) sub =
     (case str_last_index cs sub of
        Some i \<Rightarrow> Some (Suc i)
      | None \<Rightarrow> if prefix sub (c # cs) then Some 0 else None)"

text \<open>
  \<open>strings.Count(s, sub)\<close>: the number of non-overlapping occurrences, found left to
  right; for the empty \<open>sub\<close> it is the number of runes plus one.
\<close>

function count_loop :: "string \<Rightarrow> string \<Rightarrow> nat" where
  "count_loop s sub =
     (if sub = [] then 0
      else case str_index s sub of
             None \<Rightarrow> 0
           | Some i \<Rightarrow> Suc (count_loop (drop (i + length sub) s) sub))"
  by pat_completeness auto
termination
proof (relation "measure (\<lambda>(s, sub). length s)")
  show "wf (measure (\<lambda>(s, sub). length s))" by simp
next
  fix s sub :: string and i
  assume "sub \<noteq> []" and "str_index s sub = Some i"
  then have "s \<noteq> []" by (cases s) auto
  with \<open>sub \<noteq> []\<close>
  show "((drop (i + length sub) s, sub), (s, sub)) \<in> measure (\<lambda>(s, sub). length s)"
    by simp
qed

declare count_loop.simps [simp del]

definition str_count :: "string \<Rightarrow> string \<Rightarrow> nat" where
  "str_count s sub =
     (if sub = [] then length (runes_of_string s) + 1 else count_loop s sub)"

text \<open>
  \<open>strings.Replace(s, old, new, -1)\<close>, which is \<open>strings.ReplaceAll\<close>. The loop runs
  \<open>Count(s, old)\<close> times; in each round \<open>j\<close> is the start of the next occurrence: for the
  empty \<open>old\<close> that is the current position in the first round and one rune further in
  the later ones. The string argument of \<open>replace_loop\<close> is \<open>s[start:]\<close>.
\<close>

primrec replace_loop :: "nat \<Rightarrow> bool \<Rightarrow> string \<Rightarrow> string \<Rightarrow> string \<Rightarrow> string" where
  "replace_loop 0 first s old new = s"
| "replace_loop (Suc n) first s old new =
     (if old = [] then
        (let j = (if first then 0 else snd (decode_rune s))
         in take j s @ new @ replace_loop n False (drop j s) old new)
      else
        (case str_index s old of
           None \<Rightarrow> s
         | Some j \<Rightarrow> take j s @ new @ replace_loop n False (drop (j + length old) s) old new))"

definition str_replace_all :: "string \<Rightarrow> string \<Rightarrow> string \<Rightarrow> string" where
  "str_replace_all s old new =
     (if old = new then s
      else let m = str_count s old in
           if m = 0 then s else replace_loop m True s old new)"


text \<open>
  \<open>strings.Split(s, sep)\<close> for a non-empty \<open>sep\<close>: the pieces between the
  non-overlapping occurrences of \<open>sep\<close>. (The editor never calls it with an empty one.)
\<close>

primrec split_loop :: "nat \<Rightarrow> string \<Rightarrow> string \<Rightarrow> string list" where
  "split_loop 0 s sep = [s]"
| "split_loop (Suc n) s sep =
     (case str_index s sep of
        None \<Rightarrow> [s]
      | Some j \<Rightarrow> take j s # split_loop n (drop (j + length sep) s) sep)"

definition str_split :: "string \<Rightarrow> string \<Rightarrow> string list" where
  "str_split s sep = split_loop (str_count s sep) s sep"

text \<open>\<open>fmt.Sprintf("%d", n)\<close> for a count \<open>n \<ge> 0\<close>.\<close>

fun format_nat :: "nat \<Rightarrow> string" where
  "format_nat n =
     (if n < 10 then [byte (48 + n)] else format_nat (n div 10) @ [byte (48 + n mod 10)])"

declare format_nat.simps [simp del]

text \<open>Indexing and slicing with Go's bounds checks.\<close>

definition index_at :: "'a list \<Rightarrow> int \<Rightarrow> 'a option" where
  "index_at xs i = (if 0 \<le> i \<and> i < int (length xs) then Some (xs ! nat i) else None)"

text \<open>\<open>xs[i:]\<close> panics unless \<open>0 \<le> i \<le> len(xs)\<close>.\<close>

definition slice_from :: "'a list \<Rightarrow> int \<Rightarrow> 'a list option" where
  "slice_from xs i = (if 0 \<le> i \<and> i \<le> int (length xs) then Some (drop (nat i) xs) else None)"

text \<open>
  \<open>xs[:j]\<close> panics unless \<open>0 \<le> j \<le> cap(xs)\<close>. The model does not track the capacity
  of a slice: it reports a panic whenever \<open>j\<close> exceeds the length, where Go would, if
  spare capacity is left, silently re-expose elements beyond the length instead. The two
  agree on every state whose cursor lies within its line.
\<close>

definition slice_to :: "'a list \<Rightarrow> int \<Rightarrow> 'a list option" where
  "slice_to xs j = (if 0 \<le> j \<and> j \<le> int (length xs) then Some (take (nat j) xs) else None)"

section \<open>The editor state\<close>

datatype mode = normalMode | insertMode | searchMode | replaceMode

text \<open>A checkpoint: the fields \<open>content\<close>, \<open>cursorX\<close>, \<open>cursorY\<close> of struct \<open>action\<close>.\<close>

record action =
  act_content :: "rune list list"
  act_cursorX :: int
  act_cursorY :: int

record model =
  content :: "rune list list"
  cursorX :: int
  cursorY :: int
  offsetY :: int
  width :: int
  height :: int
  mode :: mode
  filename :: string
  statusMsg :: string
  searchTerm :: string
  replaceTerm :: string
  clipboard :: string
  modified :: bool
  tabSize :: int
  undoStack :: "action list"
  redoStack :: "action list"

text \<open>
  \<open>initialModel\<close>; \<open>file\<close> is what \<open>os.ReadFile\<close> returned when the file name is not
  empty and the read succeeded.
\<close>

definition initialModel :: "string \<Rightarrow> string option \<Rightarrow> model" where
  "initialModel fname file =
     \<lparr> content = (case (if fname \<noteq> [] then file else None) of
                    None \<Rightarrow> [[]]
                  | Some data \<Rightarrow> map runes_of_string (str_split data [byte 10])),
       cursorX = 0, cursorY = 0, offsetY = 0, width = 0, height = 0,
       mode = normalMode, filename = fname, statusMsg = ''Normal mode'',
       searchTerm = [], replaceTerm = [], clipboard = [], modified = False,
       tabSize = 4, undoStack = [], redoStack = [] \<rparr>"

text \<open>
  What a handler reads of a \<open>tea.KeyMsg\<close>: the result of \<open>msg.String()\<close> and the field
  \<open>msg.Runes\<close>.
\<close>

record keymsg =
  key_string :: string
  key_runes :: "rune list"

text \<open>The command a handler returns: \<open>nil\<close>, or the sequence that quits the program.\<close>

datatype cmd = NoCmd | QuitCmd

section \<open>History\<close>

text \<open>
  \<open>deepCopyContent\<close> copies every line into fresh memory. Lists are values, so the copy
  is the list itself; what the copy buys the program (a checkpoint never shares memory
  with the live buffer) holds of the model by construction.
\<close>

definition deepCopyContent :: "rune list list \<Rightarrow> rune list list" where
  "deepCopyContent c = map (\<lambda>line. line) c"

definition snapshot :: "model \<Rightarrow> action" where
  "snapshot m = \<lparr> act_content = deepCopyContent (content m),
                  act_cursorX = cursorX m, act_cursorY = cursorY m \<rparr>"

definition saveAction :: "model \<Rightarrow> model" where
  "saveAction m = m \<lparr> undoStack := undoStack m @ [snapshot m], redoStack := [] \<rparr>"

definition undo :: "model \<Rightarrow> model" where
  "undo m =
     (if length (undoStack m) > 0 then
        let lastAction = last (undoStack m) in
        m \<lparr> redoStack := redoStack m @ [snapshot m],
            undoStack := butlast (undoStack m),
            content := deepCopyContent (act_content lastAction),
            cursorX := act_cursorX lastAction,
            cursorY := act_cursorY lastAction,
            modified := True,
            statusMsg := ''Undo performed'' \<rparr>
      else m \<lparr> statusMsg := ''Nothing to undo'' \<rparr>)"

definition redo :: "model \<Rightarrow> model" where
  "redo m =
     (if length (redoStack m) > 0 then
        let lastAction = last (redoStack m) in
        m \<lparr> undoStack := undoStack m @ [snapshot m],
            redoStack := butlast (redoStack m),
            content := deepCopyContent (act_content lastAction),
            cursorX := act_cursorX lastAction,
            cursorY := act_cursorY lastAction,
            modified := True,
            statusMsg := ''Redo performed'' \<rparr>
      else m \<lparr> statusMsg := ''Nothing to redo'' \<rparr>)"

section \<open>Cursor and viewport\<close>

definition adjustOffset :: "model \<Rightarrow> model" where
  "adjustOffset m =
     (if cursorY m < offsetY m then m \<lparr> offsetY := cursorY m \<rparr>
      else if cursorY m \<ge> offsetY m + height m then m \<lparr> offsetY := cursorY m - height m + 1 \<rparr>
      else m)"

definition moveCursor :: "int \<Rightarrow> int \<Rightarrow> model \<Rightarrow> model option" where
  "moveCursor dx dy m0 =
     (let m = m0 \<lparr> cursorX := cursorX m0 + dx, cursorY := cursorY m0 + dy \<rparr>;
          m = (if cursorY m < 0 then m \<lparr> cursorY := 0 \<rparr>
               else if cursorY m \<ge> int (length (content m))
               then m \<lparr> cursorY := int (length (content m)) - 1 \<rparr>
               else m)
      in if cursorX m < 0 then Some (adjustOffset (m \<lparr> cursorX := 0 \<rparr>))
         else do {
           line \<leftarrow> index_at (content m) (cursorY m);
           Some (adjustOffset
                   (if cursorX m > int (length line) then m \<lparr> cursorX := int (length line) \<rparr>
                    else m))
         })"


section \<open>Search and replace\<close>

datatype scan = NoMatch | Match int int

text \<open>
  The loop of \<open>findNext\<close>, from row \<open>y\<close> with start column \<open>startX\<close>. \<open>Match y x\<close> is
  the position the cursor is set to. \<open>strings.Index\<close> returns a byte offset into the
  UTF-8 encoding of the rest of the line, and the code adds it to the rune index
  \<open>startX\<close>.
\<close>

function findNext_loop :: "rune list list \<Rightarrow> string \<Rightarrow> int \<Rightarrow> int \<Rightarrow> scan option" where
  "findNext_loop c term y startX =
     (if y < int (length c) then
        do {
          line \<leftarrow> index_at c y;
          rest \<leftarrow> slice_from line startX;
          case str_index (string_of_runes rest) term of
            Some x \<Rightarrow> Some (Match y (startX + int x))
          | None \<Rightarrow> findNext_loop c term (y + 1) 0
        }
      else Some NoMatch)"
  by pat_completeness auto
termination
  by (relation "measure (\<lambda>(c, term, y, startX). nat (int (length c) - y))") auto

declare findNext_loop.simps [simp del]

definition findNext :: "model \<Rightarrow> model option" where
  "findNext m =
     do {
       r \<leftarrow> findNext_loop (content m) (searchTerm m) (cursorY m) (cursorX m + 1);
       Some (case r of
               Match y x \<Rightarrow> adjustOffset (m \<lparr> cursorY := y, cursorX := x \<rparr>)
             | NoMatch \<Rightarrow> m \<lparr> statusMsg := ''Pattern not found: '' @ searchTerm m \<rparr>)
     }"

function findPrevious_loop :: "rune list list \<Rightarrow> string \<Rightarrow> int \<Rightarrow> int \<Rightarrow> scan option" where
  "findPrevious_loop c term y startX0 =
     (if y \<ge> 0 then
        do {
          startX \<leftarrow> (if startX0 < 0 then map_option (\<lambda>l. int (length l) - 1) (index_at c y)
                     else Some startX0);
          line \<leftarrow> index_at c y;
          front \<leftarrow> slice_to line (startX + 1);
          case str_last_index (string_of_runes front) term of
            Some x \<Rightarrow> Some (Match y (int x))
          | None \<Rightarrow> findPrevious_loop c term (y - 1) (- 1)
        }
      else Some NoMatch)"
  by pat_completeness auto
termination
  by (relation "measure (\<lambda>(c, term, y, startX0). nat (y + 1))") auto

declare findPrevious_loop.simps [simp del]

definition findPrevious :: "model \<Rightarrow> model option" where
  "findPrevious m =
     do {
       r \<leftarrow> findPrevious_loop (content m) (searchTerm m) (cursorY m) (cursorX m - 1);
       Some (case r of
               Match y x \<Rightarrow> adjustOffset (m \<lparr> cursorY := y, cursorX := x \<rparr>)
             | NoMatch \<Rightarrow> m \<lparr> statusMsg := ''Pattern not found: '' @ searchTerm m \<rparr>)
     }"

text \<open>
  The loop of \<open>replaceAll\<close> over the lines, carrying \<open>count\<close> and the \<open>modified\<close> flag;
  it returns the new lines with the final values of both.
\<close>

fun replaceAll_loop ::
  "rune list list \<Rightarrow> string \<Rightarrow> string \<Rightarrow> nat \<Rightarrow> bool \<Rightarrow> rune list list \<times> nat \<times> bool" where
  "replaceAll_loop [] term repl count modf = ([], count, modf)"
| "replaceAll_loop (l # ls) term repl count modf =
     (let line = string_of_runes l;
          newLine = str_replace_all line term repl
      in if newLine \<noteq> line then
           (case replaceAll_loop ls term repl (count + str_count line term) True of
              (ls', r) \<Rightarrow> (runes_of_string newLine # ls', r))
         else
           (case replaceAll_loop ls term repl count modf of
              (ls', r) \<Rightarrow> (l # ls', r)))"

definition replaceAll :: "model \<Rightarrow> model" where
  "replaceAll m =
     (case replaceAll_loop (content m) (searchTerm m) (replaceTerm m) 0 (modified m) of
        (c, count, modf) \<Rightarrow>
          m \<lparr> content := c, modified := modf,
              statusMsg := ''Replaced '' @ format_nat count @ '' occurrences'' \<rparr>)"

text \<open>
  \<open>saveFile\<close>: \<open>werr\<close> is the error \<open>os.WriteFile\<close> returned, \<open>None\<close> for success. The
  two branches of the source (a bound file name, the default path) treat the editor
  state alike; the bytes written are not part of it.
\<close>

definition saveFile :: "string option \<Rightarrow> model \<Rightarrow> model" where
  "saveFile werr m =
     (case werr of
        Some e \<Rightarrow> m \<lparr> statusMsg := ''Error saving file: '' @ e \<rparr>
      | None \<Rightarrow> m \<lparr> statusMsg := ''File saved successfully'', modified := False \<rparr>)"

section \<open>Rendering helpers\<close>

definition highlightSearch :: "string \<Rightarrow> string \<Rightarrow> string" where
  "highlightSearch text searchTerm' =
     (if searchTerm' = [] then text
      else let parts = str_split text searchTerm';
               mark = [byte 27] @ ''[43m'' @ searchTerm' @ [byte 27] @ ''[0m''
           in concat (map (\<lambda>p. p @ mark) (butlast parts) @ [last parts]))"

text \<open>
  \<open>expandTabs\<close>: \<open>column % tabSize\<close> panics for \<open>tabSize = 0\<close>, and
  \<open>strings.Repeat\<close> panics on a negative count.
\<close>

fun expandTabs_loop :: "rune list \<Rightarrow> int \<Rightarrow> int \<Rightarrow> string option" where
  "expandTabs_loop [] tabSize' column = Some []"
| "expandTabs_loop (r # rs) tabSize' column =
     (if r = 9 then
        (if tabSize' = 0 then None
         else let spaces = tabSize' - (column mod \<bar>tabSize'\<bar>) in
              if spaces < 0 then None
              else map_option (\<lambda>out. replicate (nat spaces) CHR '' '' @ out)
                     (expandTabs_loop rs tabSize' (column + spaces)))
      else map_option (\<lambda>out. encode_rune r @ out) (expandTabs_loop rs tabSize' (column + 1)))"

definition expandTabs :: "string \<Rightarrow> int \<Rightarrow> string option" where
  "expandTabs s tabSize' = expandTabs_loop (runes_of_string s) tabSize' 0"


section \<open>The key handlers\<close>

text \<open>
  \<open>m.content[Y] = append(m.content[Y][:X], append([]rune{r}, m.content[Y][X:]...)...)\<close>
  followed by \<open>m.cursorX++\<close>: the statement pair shared by the tab loop and the
  character case of \<open>handleInsertMode\<close>.
\<close>

definition insertRune :: "rune \<Rightarrow> model \<Rightarrow> model option" where
  "insertRune r m =
     do {
       line \<leftarrow> index_at (content m) (cursorY m);
       front \<leftarrow> slice_to line (cursorX m);
       rest \<leftarrow> slice_from line (cursorX m);
       Some (m \<lparr> content := (content m)[nat (cursorY m) := front @ [r] @ rest],
                 cursorX := cursorX m + 1 \<rparr>)
     }"

text \<open>The loop \<open>for i := 0; i < m.tabSize; i++\<close> with \<open>n\<close> rounds left.\<close>

primrec tab_loop :: "nat \<Rightarrow> model \<Rightarrow> model option" where
  "tab_loop 0 m = Some m"
| "tab_loop (Suc n) m = do { m' \<leftarrow> insertRune 32 m; tab_loop n m' }"

definition handleNormalMode :: "string option \<Rightarrow> model \<Rightarrow> keymsg \<Rightarrow> (model \<times> cmd) option" where
  "handleNormalMode werr m msg =
     (let k = key_string msg in
      if k = ''q'' then
        (if modified m
         then Some (m \<lparr> statusMsg := ''Unsaved changes. Use :q! to force quit.'' \<rparr>, NoCmd)
         else Some (m, QuitCmd))
      else if k = ''i'' then Some (m \<lparr> mode := insertMode, statusMsg := ''Insert mode'' \<rparr>, NoCmd)
      else if k = ''h'' \<or> k = ''left'' then map_option (\<lambda>m'. (m', NoCmd)) (moveCursor (- 1) 0 m)
      else if k = ''l'' \<or> k = ''right'' then map_option (\<lambda>m'. (m', NoCmd)) (moveCursor 1 0 m)
      else if k = ''k'' \<or> k = ''up'' then map_option (\<lambda>m'. (m', NoCmd)) (moveCursor 0 (- 1) m)
      else if k = ''j'' \<or> k = ''down'' then map_option (\<lambda>m'. (m', NoCmd)) (moveCursor 0 1 m)
      else if k = ''g'' then Some (m \<lparr> cursorY := 0, offsetY := 0 \<rparr>, NoCmd)
      else if k = ''G'' then
        Some (adjustOffset (m \<lparr> cursorY := int (length (content m)) - 1 \<rparr>), NoCmd)
      else if k = ''0'' then Some (m \<lparr> cursorX := 0 \<rparr>, NoCmd)
      else if k = ''$'' then
        do {
          line \<leftarrow> index_at (content m) (cursorY m);
          Some (m \<lparr> cursorX := int (length line) \<rparr>, NoCmd)
        }
      else if k = ''x'' then
        do {
          line \<leftarrow> index_at (content m) (cursorY m);
          if cursorX m < int (length line) then
            do {
              front \<leftarrow> slice_to line (cursorX m);
              rest \<leftarrow> slice_from line (cursorX m + 1);
              Some (m \<lparr> content := (content m)[nat (cursorY m) := front @ rest],
                        modified := True \<rparr>, NoCmd)
            }
          else Some (m, NoCmd)
        }
      else if k = ''d'' then
        (if cursorY m < int (length (content m)) - 1 then
           do {
             line \<leftarrow> index_at (content m) (cursorY m);
             front \<leftarrow> slice_to (content m) (cursorY m);
             rest \<leftarrow> slice_from (content m) (cursorY m + 1);
             let m1 = m \<lparr> clipboard := string_of_runes line, content := front @ rest,
                          modified := True \<rparr>;
             Some (if cursorY m1 \<ge> int (length (content m1))
                   then m1 \<lparr> cursorY := int (length (content m1)) - 1 \<rparr> else m1, NoCmd)
           }
         else Some (m, NoCmd))
      else if k = ''u'' then Some (undo m, NoCmd)
      else if k = ''ctrl+r'' then Some (redo m, NoCmd)
      else if k = ''y'' then
        (if cursorY m < int (length (content m)) then
           do {
             line \<leftarrow> index_at (content m) (cursorY m);
             Some (m \<lparr> clipboard := string_of_runes line,
                       statusMsg := ''Line yanked to clipboard'' \<rparr>, NoCmd)
           }
         else Some (m, NoCmd))
      else if k = ''p'' then
        (if clipboard m \<noteq> [] then
           do {
             let m1 = saveAction m;
             front \<leftarrow> slice_to (content m1) (cursorY m1 + 1);
             rest \<leftarrow> slice_from (content m1) (cursorY m1);
             let c = front @ rest;
             _ \<leftarrow> index_at c (cursorY m1 + 1);
             Some (m1 \<lparr> content := c[nat (cursorY m1 + 1) := runes_of_string (clipboard m1)],
                        cursorY := cursorY m1 + 1,
                        modified := True,
                        statusMsg := ''Line pasted from clipboard'' \<rparr>, NoCmd)
           }
         else Some (m, NoCmd))
      else if k = ''/'' then
        Some (m \<lparr> mode := searchMode, statusMsg := ''/'', searchTerm := [] \<rparr>, NoCmd)
      else if k = ''n'' then map_option (\<lambda>m'. (m', NoCmd)) (findNext m)
      else if k = ''N'' then map_option (\<lambda>m'. (m', NoCmd)) (findPrevious m)
      else if k = '':'' then Some (m \<lparr> statusMsg := '':'' \<rparr>, NoCmd)
      else if k = ''w'' then
        Some (if statusMsg m = '':'' then saveFile werr m else m, NoCmd)
      else if k = ''q!'' then
        Some (m, if statusMsg m = '':'' then QuitCmd else NoCmd)
      else if k = ''ctrl+c'' then Some (m, QuitCmd)
      else if k = ''pageup'' then
        map_option (\<lambda>m'. (m', NoCmd)) (moveCursor 0 (- height m) m)
      else if k = ''pagedown'' then
        map_option (\<lambda>m'. (m', NoCmd)) (moveCursor 0 (height m) m)
      else Some (m, NoCmd))"

definition handleInsertMode :: "model \<Rightarrow> keymsg \<Rightarrow> (model \<times> cmd) option" where
  "handleInsertMode m msg =
     (let k = key_string msg in
      map_option (\<lambda>m'. (adjustOffset m', NoCmd))
        (if k = ''esc'' then
           (let m1 = m \<lparr> mode := normalMode, statusMsg := ''Normal mode'' \<rparr>
            in Some (if cursorX m1 > 0 then m1 \<lparr> cursorX := cursorX m1 - 1 \<rparr> else m1))
         else if k = ''enter'' then
           do {
             let m1 = saveAction m;
             line \<leftarrow> index_at (content m1) (cursorY m1);
             newLine \<leftarrow> slice_from line (cursorX m1);
             front \<leftarrow> slice_to line (cursorX m1);
             let c = (content m1)[nat (cursorY m1) := front];
             Some (m1 \<lparr> content := take (nat (cursorY m1 + 1)) c @ [newLine]
                                     @ drop (nat (cursorY m1 + 1)) c,
                        cursorY := cursorY m1 + 1,
                        cursorX := 0,
                        modified := True \<rparr>)
           }
         else if k = ''backspace'' then
           (if cursorX m > 0 then
              do {
                line \<leftarrow> index_at (content m) (cursorY m);
                front \<leftarrow> slice_to line (cursorX m - 1);
                rest \<leftarrow> slice_from line (cursorX m);
                Some (m \<lparr> content := (content m)[nat (cursorY m) := front @ rest],
                          cursorX := cursorX m - 1,
                          modified := True \<rparr>)
              }
            else if cursorY m > 0 then
              do {
                let y = cursorY m - 1;
                prev \<leftarrow> index_at (content m) y;
                cur \<leftarrow> index_at (content m) (y + 1);
                let c = (content m)[nat y := prev @ cur];
                Some (m \<lparr> cursorY := y,
                          cursorX := int (length prev),
                          content := take (nat (y + 1)) c @ drop (nat (y + 2)) c,
                          modified := True \<rparr>)
              }
            else Some m)
         else if k = ''tab'' then
           map_option (\<lambda>m'. m' \<lparr> modified := True \<rparr>) (tab_loop (nat (tabSize m)) m)
         else if length (key_runes msg) = 1 then
           map_option (\<lambda>m'. m' \<lparr> modified := True \<rparr>)
             (insertRune (key_runes msg ! 0) (saveAction m))
         else Some m))"

definition handleSearchMode :: "model \<Rightarrow> keymsg \<Rightarrow> (model \<times> cmd) option" where
  "handleSearchMode m msg =
     (let k = key_string msg in
      map_option (\<lambda>m'. (m', NoCmd))
        (if k = ''esc'' then Some (m \<lparr> mode := normalMode, statusMsg := ''Normal mode'' \<rparr>)
         else if k = ''enter'' then map_option (\<lambda>m'. m' \<lparr> mode := normalMode \<rparr>) (findNext m)
         else if k = ''backspace'' then
           Some (if length (searchTerm m) > 0
                 then (let t = butlast (searchTerm m)
                       in m \<lparr> searchTerm := t, statusMsg := ''/'' @ t \<rparr>)
                 else m)
         else if length (key_runes msg) = 1 then
           (let t = searchTerm m @ encode_rune (key_runes msg ! 0)
            in Some (m \<lparr> searchTerm := t, statusMsg := ''/'' @ t \<rparr>))
         else Some m))"

definition handleReplaceMode :: "model \<Rightarrow> keymsg \<Rightarrow> (model \<times> cmd) option" where
  "handleReplaceMode m msg =
     (let k = key_string msg in
      map_option (\<lambda>m'. (m', NoCmd))
        (if k = ''esc'' then Some (m \<lparr> mode := normalMode, statusMsg := ''Normal mode'' \<rparr>)
         else if k = ''enter'' then Some ((replaceAll m) \<lparr> mode := normalMode \<rparr>)
         else if k = ''backspace'' then
           Some (if length (replaceTerm m) > 0
                 then (let t = butlast (replaceTerm m)
                       in m \<lparr> replaceTerm := t, statusMsg := ''Replace with: '' @ t \<rparr>)
                 else m)
         else if length (key_runes msg) = 1 then
           (let t = replaceTerm m @ encode_rune (key_runes msg ! 0)
            in Some (m \<lparr> replaceTerm := t, statusMsg := ''Replace with: '' @ t \<rparr>))
         else Some m))"

text \<open>
  \<open>Update\<close>: a key goes to the handler of the current mode, a window size message sets
  the viewport, any other message leaves the state alone.
\<close>

datatype msg = KeyMsg keymsg | WindowSizeMsg int int | OtherMsg

fun Update :: "string option \<Rightarrow> model \<Rightarrow> msg \<Rightarrow> (model \<times> cmd) option" where
  "Update werr m (KeyMsg k) =
     (case mode m of
        normalMode \<Rightarrow> handleNormalMode werr m k
      | insertMode \<Rightarrow> handleInsertMode m k
      | searchMode \<Rightarrow> handleSearchMode m k
      | replaceMode \<Rightarrow> handleReplaceMode m k)"
| "Update werr m (WindowSizeMsg w h) = Some (m \<lparr> width := w, height := h - 2 \<rparr>, NoCmd)"
| "Update werr m OtherMsg = Some (m, NoCmd)"

text \<open>
  A session: the messages are handled one after the other, each on the state the one
  before returned; a panic ends it.
\<close>

fun run :: "string option \<Rightarrow> model \<Rightarrow> msg list \<Rightarrow> model option" where
  "run werr m [] = Some m"
| "run werr m (e # es) = (case Update werr m e of None \<Rightarrow> None | Some (m', c) \<Rightarrow> run werr m' es)"

text \<open>The key events of a printable character and of a named key.\<close>

definition char_key :: "rune \<Rightarrow> msg" where
  "char_key r = KeyMsg \<lparr> key_string = encode_rune r, key_runes = [r] \<rparr>"

definition named_key :: "string \<Rightarrow> msg" where
  "named_key name = KeyMsg \<lparr> key_string = name, key_runes = [] \<rparr>"


section \<open>States and inputs used below\<close>

text \<open>The cursor lies within the buffer: the row names a line, the column a position of it.\<close>

definition cursor_ok :: "model \<Rightarrow> bool" where
  "cursor_ok m \<longleftrightarrow>
     0 \<le> cursorY m \<and> cursorY m < int (length (content m)) \<and>
     0 \<le> cursorX m \<and> cursorX m \<le> int (length (content m ! nat (cursorY m)))"

text \<open>The key events of typing the ASCII characters of \<open>s\<close>, one key each.\<close>

definition typed :: "string \<Rightarrow> msg list" where
  "typed s = map (\<lambda>c. char_key (of_char c)) s"

text \<open>The editor started on a file that holds \<open>data\<close>.\<close>

definition opened :: "string \<Rightarrow> model" where
  "opened data = initialModel ''file.txt'' (Some data)"

text \<open>The line \<open>a\<close> in Insert mode with the cursor behind the \<open>a\<close> (keys \<open>$\<close>, \<open>i\<close>).\<close>

definition tab_state :: model where
  "tab_state = (opened ''a'') \<lparr> mode := insertMode, cursorX := 1 \<rparr>"

definition tab_key :: keymsg where
  "tab_key = \<lparr> key_string = ''tab'', key_runes = [] \<rparr>"

text \<open>Replace mode was left with a search term and a replacement.\<close>

definition replacing :: "string \<Rightarrow> string \<Rightarrow> string \<Rightarrow> model" where
  "replacing data term repl = (opened data) \<lparr> searchTerm := term, replaceTerm := repl \<rparr>"

text \<open>Two states hold the same document: buffer, cursor and both history stacks agree.\<close>

definition same_doc :: "model \<Rightarrow> model \<Rightarrow> bool" where
  "same_doc m m' \<longleftrightarrow>
     content m = content m' \<and> cursorX m = cursorX m' \<and> cursorY m = cursorY m' \<and>
     undoStack m = undoStack m' \<and> redoStack m = redoStack m'"

section \<open>Properties\<close>

subsection \<open>Auxiliary facts\<close>

lemma deepCopyContent_id [simp]: "deepCopyContent c = c"
  by (simp add: deepCopyContent_def)

lemma action_eta [simp]:
  "\<lparr> act_content = act_content a, act_cursorX = act_cursorX a, act_cursorY = act_cursorY a \<rparr>
     = (a :: action)"
  by (cases a) simp

lemma adjustOffset_fields [simp]:
  "content (adjustOffset m) = content m"
  "cursorX (adjustOffset m) = cursorX m"
  "cursorY (adjustOffset m) = cursorY m"
  "undoStack (adjustOffset m) = undoStack m"
  "redoStack (adjustOffset m) = redoStack m"
  by (simp_all add: adjustOffset_def)

lemma cursor_ok_adjustOffset [simp]: "cursor_ok (adjustOffset m) = cursor_ok m"
  by (simp add: cursor_ok_def)



lemma insertRune_ok:
  assumes "cursor_ok m"
  shows "insertRune r m =
           Some (m \<lparr> content := (content m)[nat (cursorY m) :=
                        take (nat (cursorX m)) (content m ! nat (cursorY m)) @ [r]
                        @ drop (nat (cursorX m)) (content m ! nat (cursorY m))],
                     cursorX := cursorX m + 1 \<rparr>)"
  using assms by (simp add: insertRune_def cursor_ok_def index_at_def slice_to_def slice_from_def)

subsection \<open>History\<close>

text \<open>
  What the history does for an edit that checkpoints (a typed character, a line split, a
  paste): \<open>undo\<close> returns to the checkpoint, and \<open>redo\<close> and \<open>undo\<close> invert each other.
\<close>

lemma undo_restores_checkpoint:
  assumes "undoStack m' = undoStack (saveAction m)"
  shows "content (undo m') = content m \<and> cursorX (undo m') = cursorX m
         \<and> cursorY (undo m') = cursorY m \<and> undoStack (undo m') = undoStack m"
  using assms by (simp add: undo_def saveAction_def snapshot_def Let_def)

lemma redo_undo_round_trip:
  assumes "undoStack m \<noteq> []"
  shows "content (redo (undo m)) = content m \<and> cursorX (redo (undo m)) = cursorX m
         \<and> cursorY (redo (undo m)) = cursorY m \<and> undoStack (redo (undo m)) = undoStack m
         \<and> redoStack (redo (undo m)) = redoStack m"
  using assms by (simp add: undo_def redo_def snapshot_def Let_def)

lemma undo_redo_round_trip:
  assumes "redoStack m \<noteq> []"
  shows "content (undo (redo m)) = content m \<and> cursorX (undo (redo m)) = cursorX m
         \<and> cursorY (undo (redo m)) = cursorY m \<and> undoStack (undo (redo m)) = undoStack m
         \<and> redoStack (undo (redo m)) = redoStack m"
  using assms by (simp add: undo_def redo_def snapshot_def Let_def)

text \<open>
  Any number of undos, up to the number of checkpoints on the stack, followed by as many
  redos returns to the same document.
\<close>

lemma same_doc_undo: "same_doc m m' \<Longrightarrow> same_doc (undo m) (undo m')"
  by (simp add: same_doc_def undo_def snapshot_def Let_def)

lemma same_doc_redo: "same_doc m m' \<Longrightarrow> same_doc (redo m) (redo m')"
  by (simp add: same_doc_def redo_def snapshot_def Let_def)

lemma same_doc_trans: "same_doc a b \<Longrightarrow> same_doc b c \<Longrightarrow> same_doc a c"
  by (simp add: same_doc_def)

lemma length_undoStack_undo:
  "length (undoStack (undo m)) = length (undoStack m) - 1"
  by (simp add: undo_def Let_def)

lemma redo_undo_depth:
  assumes "n \<le> length (undoStack m)"
  shows "same_doc ((redo ^^ n) ((undo ^^ n) m)) m"
  using assms
proof (induction n arbitrary: m)
  case 0
  show ?case by (simp add: same_doc_def)
next
  case (Suc n)
  from Suc.prems have ne: "undoStack m \<noteq> []" and "n \<le> length (undoStack (undo m))"
    by (auto simp: length_undoStack_undo)
  then have "same_doc ((redo ^^ n) ((undo ^^ n) (undo m))) (undo m)"
    using Suc.IH by blast
  then have "same_doc (redo ((redo ^^ n) ((undo ^^ n) (undo m)))) (redo (undo m))"
    by (rule same_doc_redo)
  moreover have "same_doc (redo (undo m)) m"
    using redo_undo_round_trip [OF ne] by (simp add: same_doc_def)
  ultimately have "same_doc (redo ((redo ^^ n) ((undo ^^ n) (undo m)))) m"
    by (rule same_doc_trans)
  then show ?case
    by (simp add: funpow_swap1)
qed

text \<open>
  The three edits that checkpoint, on a state whose cursor is within the buffer: a typed
  character, a line split and a paste push the state of before the edit and empty the
  redo stack; undo returns to that state, and redo after the undo to the edited one.
\<close>

lemma typed_char_round_trip:
  assumes "cursor_ok m" and "key_runes msg = [r]"
    and "key_string msg \<notin> {''esc'', ''enter'', ''backspace'', ''tab''}"
  shows "\<exists>m'. handleInsertMode m msg = Some (m', NoCmd)
           \<and> undoStack m' = undoStack m @ [snapshot m] \<and> redoStack m' = []
           \<and> content (undo m') = content m \<and> cursorX (undo m') = cursorX m
           \<and> cursorY (undo m') = cursorY m
           \<and> content (redo (undo m')) = content m' \<and> cursorX (redo (undo m')) = cursorX m'
           \<and> cursorY (redo (undo m')) = cursorY m'"
proof -
  from assms(1) have ok: "cursor_ok (saveAction m)"
    by (simp add: cursor_ok_def saveAction_def)
  from assms(2,3) insertRune_ok [OF ok, of r]
  obtain m' where h: "handleInsertMode m msg = Some (m', NoCmd)"
    and u: "undoStack m' = undoStack (saveAction m)" and r: "redoStack m' = []"
    by (simp add: handleInsertMode_def saveAction_def)
  from u have ne: "undoStack m' \<noteq> []"
    by (simp add: saveAction_def)
  from h u r undo_restores_checkpoint [OF u] redo_undo_round_trip [OF ne]
  show ?thesis
    by (simp add: saveAction_def)
qed

lemma enter_round_trip:
  assumes "cursor_ok m" and "key_string msg = ''enter''"
  shows "\<exists>m'. handleInsertMode m msg = Some (m', NoCmd)
           \<and> undoStack m' = undoStack m @ [snapshot m] \<and> redoStack m' = []
           \<and> content (undo m') = content m \<and> cursorX (undo m') = cursorX m
           \<and> cursorY (undo m') = cursorY m
           \<and> content (redo (undo m')) = content m' \<and> cursorX (redo (undo m')) = cursorX m'
           \<and> cursorY (redo (undo m')) = cursorY m'"
proof -
  from assms
  obtain m' where h: "handleInsertMode m msg = Some (m', NoCmd)"
    and u: "undoStack m' = undoStack (saveAction m)" and r: "redoStack m' = []"
    by (simp add: handleInsertMode_def saveAction_def cursor_ok_def index_at_def
          slice_from_def slice_to_def Let_def)
  from u have ne: "undoStack m' \<noteq> []"
    by (simp add: saveAction_def)
  from h u r undo_restores_checkpoint [OF u] redo_undo_round_trip [OF ne]
  show ?thesis
    by (simp add: saveAction_def)
qed

lemma paste_round_trip:
  assumes "cursor_ok m" and "key_string msg = ''p''" and "clipboard m \<noteq> []"
  shows "\<exists>m'. handleNormalMode werr m msg = Some (m', NoCmd)
           \<and> undoStack m' = undoStack m @ [snapshot m] \<and> redoStack m' = []
           \<and> content (undo m') = content m \<and> cursorX (undo m') = cursorX m
           \<and> cursorY (undo m') = cursorY m
           \<and> content (redo (undo m')) = content m' \<and> cursorX (redo (undo m')) = cursorX m'
           \<and> cursorY (redo (undo m')) = cursorY m'"
proof -
  from assms(1) obtain n where n: "cursorY m = int n" "n < length (content m)"
    by (cases "cursorY m") (auto simp: cursor_ok_def)
  then have "nat (int n + 1) = Suc n"
    by (simp add: nat_add_distrib)
  with assms n
  obtain m' where h: "handleNormalMode werr m msg = Some (m', NoCmd)"
    and u: "undoStack m' = undoStack (saveAction m)" and r: "redoStack m' = []"
    by (simp add: handleNormalMode_def saveAction_def index_at_def
          slice_from_def slice_to_def Let_def)
  from u have ne: "undoStack m' \<noteq> []"
    by (simp add: saveAction_def)
  from h u r undo_restores_checkpoint [OF u] redo_undo_round_trip [OF ne]
  show ?thesis
    by (simp add: saveAction_def)
qed

text \<open>The Normal-mode key \<open>x\<close> deletes without touching either stack.\<close>

lemma delete_char_keeps_history:
  assumes "key_string msg = ''x''" and "handleNormalMode werr m msg = Some (m', c)"
  shows "undoStack m' = undoStack m \<and> redoStack m' = redoStack m"
  using assms
  by (auto simp: handleNormalMode_def Let_def index_at_def slice_to_def slice_from_def
        split: if_splits)

text \<open>
  C1 (undo after any single edit restores the buffer and the cursor of before the
  edit). The key \<open>x\<close> is an edit that makes no checkpoint: on the file \<open>abc\<close> it deletes
  the \<open>a\<close>, and the undo that follows finds an empty stack, reports so and leaves the
  buffer at \<open>bc\<close>.
\<close>

theorem undo_after_delete_char_keeps_edit:
  "map_option (\<lambda>m. (content m, cursorX m, cursorY m, statusMsg m))
     (run None (opened ''abc'') (typed ''xu''))
   = Some ([runes_of_string ''bc''], 0, 0, ''Nothing to undo'')"
  by code_simp

text \<open>
  C2 (every edit action pushes exactly one checkpoint). Five edits on a freshly opened
  file, each shown with the buffer it produces and the undo stack it leaves: deleting a
  character with \<open>x\<close>, deleting a line with \<open>d\<close>, deleting a character with backspace,
  joining two lines with backspace, and the tab key. The buffer changes every time and
  the undo stack stays empty.
\<close>

theorem unchecked_edits_push_no_checkpoint:
  "map_option (\<lambda>m. (content m, undoStack m)) (run None (opened ''abc'') (typed ''x''))
     = Some ([runes_of_string ''bc''], [])
   \<and> map_option (\<lambda>m. (content m, undoStack m)) (run None (opened ''a\<newline>b'') (typed ''d''))
     = Some ([runes_of_string ''b''], [])
   \<and> map_option (\<lambda>m. (content m, undoStack m))
       (run None (opened ''abc'') (typed ''li'' @ [named_key ''backspace'']))
     = Some ([runes_of_string ''bc''], [])
   \<and> map_option (\<lambda>m. (content m, undoStack m))
       (run None (opened ''a\<newline>b'') (typed ''ji'' @ [named_key ''backspace'']))
     = Some ([runes_of_string ''ab''], [])
   \<and> map_option (\<lambda>m. (content m, undoStack m))
       (run None (opened ''abc'') (typed ''i'' @ [named_key ''tab'']))
     = Some ([runes_of_string ''    abc''], [])"
  by code_simp

subsection \<open>Cursor\<close>

text \<open>\<open>moveCursor\<close> clamps the row and then the column: it leaves the cursor in the buffer.\<close>

lemma moveCursor_cursor_ok:
  assumes "content m \<noteq> []"
  shows "\<exists>m'. moveCursor dx dy m = Some m' \<and> cursor_ok m' \<and> content m' = content m"
  using assms
  by (auto simp: moveCursor_def Let_def index_at_def cursor_ok_def)

text \<open>
  C3 (after every operation the cursor is within the buffer: the row names a line and
  the column is at most the length of that line). On the two lines \<open>abc\<close> and the empty
  line, \<open>$\<close> puts the column at 3 and \<open>G\<close> moves to the last row without clamping the
  column: the cursor is at row 1, column 3, on a line of length 0.
\<close>

theorem cursor_column_out_of_range_after_jump:
  "map_option (\<lambda>m. (cursorY m, cursorX m, map length (content m), cursor_ok m))
     (run None (opened ''abc\<newline>'') (typed ''$G''))
   = Some (1, 3, [3, 0], False)"
  by code_simp

text \<open>
  C4 (an edit after an undo empties the redo stack, so the redo that follows reports
  that there is nothing to redo). On the file \<open>b\<close>: type \<open>a\<close> in Insert mode, leave it,
  undo, delete the \<open>b\<close> with \<open>x\<close>. The deletion leaves the redo stack alone, and the redo
  that follows brings back \<open>ab\<close>.
\<close>

theorem redo_survives_unchecked_edit:
  "map_option (\<lambda>m. (content m, length (redoStack m)))
     (run None (opened ''b'') (typed ''ia'' @ [named_key ''esc''] @ typed ''ux''))
     = Some ([[]], 1)
   \<and> map_option (\<lambda>m. (content m, length (redoStack m), statusMsg m))
       (run None (opened ''b'')
          (typed ''ia'' @ [named_key ''esc''] @ typed ''ux'' @ [named_key ''ctrl+r'']))
     = Some ([runes_of_string ''ab''], 0, ''Redo performed'')"
  by code_simp


subsection \<open>Search\<close>

text \<open>
  The walk of the source's own example: on the lines \<open>hello world\<close> and \<open>world peace\<close>
  the search for \<open>world\<close> from the top lands at row 0, column 6, the repetition at row 1,
  column 0, and the next one reports that nothing was found and stays.
\<close>

lemma findNext_two_lines:
  "map (\<lambda>keys. map_option (\<lambda>m. (cursorY m, cursorX m, statusMsg m))
                 (run None (opened ''hello world\<newline>world peace'') keys))
     [typed ''/world'' @ [named_key ''enter''],
      typed ''/world'' @ [named_key ''enter''] @ typed ''n'',
      typed ''/world'' @ [named_key ''enter''] @ typed ''nn'']
   = [Some (0, 6, ''/world''), Some (1, 0, ''/world''),
      Some (1, 0, ''Pattern not found: world'')]"
  by code_simp

text \<open>
  C5 (\<open>findNext\<close> lands on the first match at or after the position behind the cursor).
  The line \<open>a\<close>, \<open>U+00E9\<close>, space, \<open>world\<close> holds the word at column 3. The search from
  column 0 converts the runes from column 1 on to a string, in which \<open>U+00E9\<close> takes two
  bytes, finds the word at byte offset 3 and adds that to the start column 1: the cursor
  lands at column 4, on the \<open>o\<close>.
\<close>

theorem findNext_lands_past_match_after_wide_rune:
  "map_option (\<lambda>m. (cursorY m, cursorX m, map (drop 3) (content m), map (drop 4) (content m)))
     (run None (opened ([CHR ''a'', CHR 0xC3, CHR 0xA9] @ '' world''))
        (typed ''/world'' @ [named_key ''enter'']))
   = Some (0, 4, [runes_of_string ''world''], [runes_of_string ''orld''])"
  by code_simp

text \<open>
  With the cursor behind the last character of its line the first slice of \<open>findNext\<close>,
  \<open>m.content[y][startX:]\<close> with \<open>startX = cursorX + 1\<close>, is out of range.
\<close>

lemma findNext_end_of_line_panics:
  assumes "cursor_ok m" and "cursorX m = int (length (content m ! nat (cursorY m)))"
  shows "findNext m = None"
  using assms
  by (simp add: findNext_def findNext_loop.simps [of _ _ "cursorY m"] cursor_ok_def
        index_at_def slice_from_def)

text \<open>
  C6 (\<open>findNext\<close> is total on every reachable state, also with the cursor at the end of
  its line). The key \<open>n\<close> panics on the empty buffer the editor starts with, where column
  0 is the end of the line, and on the file \<open>abc\<close> after the end-of-line key \<open>$\<close>.
\<close>

theorem findNext_panics_at_end_of_line:
  "run None (initialModel [] None) (typed ''n'') = None
   \<and> map_option (\<lambda>m. (cursorY m, cursorX m)) (run None (opened ''abc'') (typed ''$'')) = Some (0, 3)
   \<and> run None (opened ''abc'') (typed ''$n'') = None"
  by code_simp

subsection \<open>Deleting a line\<close>

text \<open>The key \<open>d\<close> does nothing on the last row, however many lines there are.\<close>

lemma delete_line_on_last_row:
  assumes "key_string msg = ''d''" and "cursorY m = int (length (content m)) - 1"
  shows "handleNormalMode werr m msg = Some (m, NoCmd)"
  using assms by (simp add: handleNormalMode_def)

text \<open>
  C7 (on a buffer of more than one line the delete-line key copies the current line to
  the register and removes it; it does nothing only on a buffer of one line). On the two
  lines \<open>a\<close> and \<open>b\<close> with the cursor on the second, \<open>d\<close> changes neither the buffer nor
  the register; on the first line it deletes.
\<close>

theorem delete_line_skips_last_row:
  "map_option (\<lambda>m. (content m, cursorY m, clipboard m, modified m))
     (run None (opened ''a\<newline>b'') (typed ''jd''))
     = Some ([runes_of_string ''a'', runes_of_string ''b''], 1, [], False)
   \<and> map_option (\<lambda>m. (content m, cursorY m, clipboard m, modified m))
       (run None (opened ''a\<newline>b'') (typed ''d''))
     = Some ([runes_of_string ''b''], 0, ''a'', True)"
  by code_simp

subsection \<open>Replacing\<close>

text \<open>Highlighting with an empty search term returns the text as it is.\<close>

lemma highlightSearch_empty_term: "highlightSearch text [] = text"
  by (simp add: highlightSearch_def)

text \<open>
  C8 (with an empty search term \<open>replaceAll\<close> changes no line and counts 0, and
  highlighting returns the text unchanged). \<open>replaceAll\<close> has no test for the empty
  term: \<open>strings.ReplaceAll\<close> then puts the replacement before every rune and at the
  end, and \<open>strings.Count\<close> counts the runes plus one. On the line \<open>ab\<close> with the
  replacement \<open>X\<close> the line becomes \<open>XaXbX\<close> and the count is 3.
\<close>

theorem replaceAll_empty_term_rewrites_line:
  "(let m = replaceAll (replacing ''ab'' [] ''X'')
    in (content m, statusMsg m, modified m))
   = ([runes_of_string ''XaXbX''], ''Replaced 3 occurrences'', True)"
  by code_simp








subsection \<open>The tab key\<close>

text \<open>\<open>n\<close> rounds of the tab loop insert \<open>n\<close> spaces at the cursor and move it \<open>n\<close> columns.\<close>

lemma tab_loop_ok:
  assumes "cursor_ok m"
  shows "tab_loop n m =
           Some (m \<lparr> content := (content m)[nat (cursorY m) :=
                        take (nat (cursorX m)) (content m ! nat (cursorY m)) @ replicate n 32
                        @ drop (nat (cursorX m)) (content m ! nat (cursorY m))],
                     cursorX := cursorX m + int n \<rparr>)"
  using assms
proof (induction n arbitrary: m)
  case 0
  then show ?case by (simp add: cursor_ok_def)
next
  case (Suc n)
  let ?y = "nat (cursorY m)" and ?x = "nat (cursorX m)"
  let ?l = "content m ! ?y"
  let ?m1 = "m \<lparr> content := (content m)[?y := take ?x ?l @ [32] @ drop ?x ?l],
                 cursorX := cursorX m + 1 \<rparr>"
  from Suc.prems have ok1: "cursor_ok ?m1"
    by (auto simp: cursor_ok_def)
  from Suc.prems have x: "?x \<le> length ?l" and y: "?y < length (content m)"
    by (auto simp: cursor_ok_def)
  have nx: "nat (cursorX m + 1) = Suc ?x"
    using Suc.prems by (simp add: cursor_ok_def nat_add_distrib)
  have "tab_loop (Suc n) m = tab_loop n ?m1"
    using insertRune_ok [OF Suc.prems, of 32] by simp
  also have "\<dots> = Some (?m1 \<lparr> content := (content ?m1)[nat (cursorY ?m1) :=
                        take (nat (cursorX ?m1)) (content ?m1 ! nat (cursorY ?m1)) @ replicate n 32
                        @ drop (nat (cursorX ?m1)) (content ?m1 ! nat (cursorY ?m1))],
                     cursorX := cursorX ?m1 + int n \<rparr>)"
    by (rule Suc.IH [OF ok1])
  also have "\<dots> = Some (m \<lparr> content := (content m)[?y :=
                        take ?x ?l @ replicate (Suc n) 32 @ drop ?x ?l],
                     cursorX := cursorX m + int (Suc n) \<rparr>)"
    using x y by (simp add: nx replicate_app_Cons_same)
  finally show ?case .
qed

text \<open>
  C10, as stated (the tab key pushes one checkpoint and inserts just enough spaces to
  bring the cursor to the next multiple of the tab size), fails: at column 1 with a tab
  size of 4 the key inserts four spaces, which brings the cursor to column 5 and not to
  the tab stop at column 4; the undo stack is as it was.
\<close>

theorem tab_misses_tab_stop:
  "(cursorX tab_state, tabSize tab_state, undoStack tab_state,
    map_option (\<lambda>(m', c). (content m', cursorX m', undoStack m'))
      (handleInsertMode tab_state tab_key))
   = (1, 4, [], Some ([runes_of_string ''a    ''], 5, []))"
  by code_simp

text \<open>
  C10, amended: in Insert mode, for every cursor position within the buffer, the tab key
  inserts exactly \<open>tabSize\<close> space characters at the cursor (none for a tab size below 1),
  and the cursor column advances by that number; the row stays.
\<close>

theorem tab_inserts_tabSize_spaces:
  assumes "cursor_ok m" and "key_string msg = ''tab''"
  shows "\<exists>m'. handleInsertMode m msg = Some (m', NoCmd)
           \<and> content m' = (content m)[nat (cursorY m) :=
                 take (nat (cursorX m)) (content m ! nat (cursorY m))
                 @ replicate (nat (tabSize m)) 32
                 @ drop (nat (cursorX m)) (content m ! nat (cursorY m))]
           \<and> cursorX m' = cursorX m + int (nat (tabSize m))
           \<and> cursorY m' = cursorY m"
  using assms(2) tab_loop_ok [OF assms(1), of "nat (tabSize m)"]
  by (simp add: handleInsertMode_def)

text \<open>The amended C10 at column 1 of the line \<open>a\<close>, tab size 4.\<close>

theorem tab_inserts_tabSize_spaces_witness:
  "cursor_ok tab_state \<and> key_string tab_key = ''tab''
   \<and> (\<exists>m'. handleInsertMode tab_state tab_key = Some (m', NoCmd)
          \<and> content m' = [runes_of_string ''a    '']
          \<and> cursorX m' = 5 \<and> cursorY m' = 0)"
proof -
  have ok: "cursor_ok tab_state"
    by code_simp
  have k: "key_string tab_key = ''tab''"
    by (simp add: tab_key_def)
  have c: "(content tab_state)[nat (cursorY tab_state) :=
                 take (nat (cursorX tab_state)) (content tab_state ! nat (cursorY tab_state))
                 @ replicate (nat (tabSize tab_state)) 32
                 @ drop (nat (cursorX tab_state)) (content tab_state ! nat (cursorY tab_state))]
             = [runes_of_string ''a    '']"
    by code_simp
  have x: "cursorX tab_state + int (nat (tabSize tab_state)) = 5"
    by code_simp
  have y: "cursorY tab_state = 0"
    by code_simp
  from tab_inserts_tabSize_spaces [OF ok k] obtain m' where
    h: "handleInsertMode tab_state tab_key = Some (m', NoCmd)" and
    c': "content m' = (content tab_state)[nat (cursorY tab_state) :=
                 take (nat (cursorX tab_state)) (content tab_state ! nat (cursorY tab_state))
                 @ replicate (nat (tabSize tab_state)) 32
                 @ drop (nat (cursorX tab_state)) (content tab_state ! nat (cursorY tab_state))]" and
    x': "cursorX m' = cursorX tab_state + int (nat (tabSize tab_state))" and
    y': "cursorY m' = cursorY tab_state"
    by blast
  from c' c have "content m' = [runes_of_string ''a    '']" by (rule trans)
  moreover from x' x have "cursorX m' = 5" by (rule trans)
  moreover from y' y have "cursorY m' = 0" by (rule trans)
  ultimately show ?thesis
    using ok k h by blast
qed

end
